theory Spec2Isabelle
  imports Main
begin

section \<open>JavaScript values and errors\<close>

text \<open>
  The values that \<open>response.json()\<close> can produce, plus \<open>undefined\<close> (what reading a
  missing property gives). An object is its list of own properties in insertion order,
  with distinct keys. An array carries its elements and, second, the named own
  properties that a program has put on it (none after parsing). A number is kept as the
  text that JavaScript prints for it (\<open>1.5\<close>, \<open>-3\<close>, \<open>1e+21\<close>), which tells the numbers
  apart; both zeros print as \<open>0\<close>.
\<close>

datatype jsval =
    JUndef
  | JNull
  | JBool bool
  | JNum string
  | JStr string
  | JArr "jsval list" "(string \<times> jsval) list"
  | JObj "(string \<times> jsval) list"

text \<open>
  An \<open>Error\<close> object: \<open>name\<close>, \<open>message\<close>, and the two optional properties that the
  client reads and writes, \<open>code\<close> and \<open>status\<close>.
\<close>

record js_error =
  err_name :: string
  err_message :: string
  err_code :: "string option"
  err_status :: "nat option"

definition new_Error :: "string \<Rightarrow> js_error" where
  "new_Error msg = \<lparr>err_name = ''Error'', err_message = msg, err_code = None, err_status = None\<rparr>"

definition new_TypeError :: "string \<Rightarrow> js_error" where
  "new_TypeError msg = \<lparr>err_name = ''TypeError'', err_message = msg, err_code = None, err_status = None\<rparr>"

text \<open>Decimal rendering of an HTTP status, as a template literal prints it.\<close>

definition digit_char :: "nat \<Rightarrow> char" where
  "digit_char d = char_of (48 + d)"

fun show_nat :: "nat \<Rightarrow> string" where
  "show_nat n = (if n < 10 then [digit_char n] else show_nat (n div 10) @ [digit_char (n mod 10)])"

declare show_nat.simps [simp del]

definition quoted :: "string \<Rightarrow> string" where
  "quoted s = CHR 0x27 # s @ [CHR 0x27]"

text \<open>Truthiness, as \<open>||\<close> and \<open>!\<close> test it.\<close>

fun truthy :: "jsval \<Rightarrow> bool" where
  "truthy JUndef = False"
| "truthy JNull = False"
| "truthy (JBool b) = b"
| "truthy (JNum n) = (n \<noteq> ''0'' \<and> n \<noteq> ''NaN'')"
| "truthy (JStr s) = (s \<noteq> [])"
| "truthy (JArr xs ps) = True"
| "truthy (JObj ps) = True"

definition truthy_code :: "string option \<Rightarrow> bool" where
  "truthy_code c = (case c of None \<Rightarrow> False | Some s \<Rightarrow> s \<noteq> [])"

text \<open>
  Reading \<open>v.k\<close> for a name \<open>k\<close> that is neither an array index, nor \<open>length\<close>, nor
  inherited from a prototype (\<open>message\<close>, \<open>result\<close> and \<open>is_valid\<close> are such names):
  \<open>null\<close> and \<open>undefined\<close> throw, a primitive has no such property.
\<close>

fun lookup_prop :: "(string \<times> jsval) list \<Rightarrow> string \<Rightarrow> jsval" where
  "lookup_prop [] k = JUndef"
| "lookup_prop ((k', v) # ps) k = (if k' = k then v else lookup_prop ps k)"

fun get_named :: "jsval \<Rightarrow> string \<Rightarrow> js_error + jsval" where
  "get_named JUndef k =
     Inl (new_TypeError (''Cannot read properties of undefined (reading '' @ quoted k @ '')''))"
| "get_named JNull k =
     Inl (new_TypeError (''Cannot read properties of null (reading '' @ quoted k @ '')''))"
| "get_named (JObj ps) k = Inr (lookup_prop ps k)"
| "get_named (JArr xs ps) k = Inr (lookup_prop ps k)"
| "get_named v k = Inr JUndef"

text \<open>
  Assigning \<open>v.k = x\<close> in strict mode (an ES module is strict): an existing own property
  is overwritten in place, a new one is appended; a primitive, \<open>null\<close> and \<open>undefined\<close>
  throw.
\<close>

fun put_prop :: "(string \<times> jsval) list \<Rightarrow> string \<Rightarrow> jsval \<Rightarrow> (string \<times> jsval) list" where
  "put_prop [] k x = [(k, x)]"
| "put_prop ((k', v) # ps) k x = (if k' = k then (k, x) # ps else (k', v) # put_prop ps k x)"

fun set_named :: "jsval \<Rightarrow> string \<Rightarrow> jsval \<Rightarrow> js_error + jsval" where
  "set_named (JObj ps) k x = Inr (JObj (put_prop ps k x))"
| "set_named (JArr xs ps) k x = Inr (JArr xs (put_prop ps k x))"
| "set_named JUndef k x =
     Inl (new_TypeError (''Cannot set properties of undefined (setting '' @ quoted k @ '')''))"
| "set_named JNull k x =
     Inl (new_TypeError (''Cannot set properties of null (setting '' @ quoted k @ '')''))"
| "set_named (JBool b) k x =
     Inl (new_TypeError (''Cannot create property '' @ quoted k @ '' on boolean ''
            @ quoted (if b then ''true'' else ''false'')))"
| "set_named (JNum n) k x =
     Inl (new_TypeError (''Cannot create property '' @ quoted k @ '' on number ''
            @ quoted n))"
| "set_named (JStr s) k x =
     Inl (new_TypeError (''Cannot create property '' @ quoted k @ '' on string '' @ quoted s))"

text \<open>
  \<open>ToString\<close>, which \<open>new Error(x)\<close> applies to its argument. A parsed object has no
  callable property of its own: one that shadows \<open>toString\<close> cannot be converted, any
  other prints as \<open>[object Object]\<close>; an array joins its elements with commas, \<open>null\<close>
  and \<open>undefined\<close> elements printing as nothing.
\<close>

fun join_commas :: "(js_error + string) list \<Rightarrow> js_error + string" where
  "join_commas [] = Inr []"
| "join_commas [x] = x"
| "join_commas (x # y # ys) =
     (case x of
        Inl e \<Rightarrow> Inl e
      | Inr s \<Rightarrow> (case join_commas (y # ys) of Inl e \<Rightarrow> Inl e | Inr t \<Rightarrow> Inr (s @ '','' @ t)))"

definition has_key :: "(string \<times> jsval) list \<Rightarrow> string \<Rightarrow> bool" where
  "has_key ps k = (k \<in> set (map fst ps))"

fun to_string :: "jsval \<Rightarrow> js_error + string" where
  "to_string JUndef = Inr ''undefined''"
| "to_string JNull = Inr ''null''"
| "to_string (JBool b) = Inr (if b then ''true'' else ''false'')"
| "to_string (JNum n) = Inr n"
| "to_string (JStr s) = Inr s"
| "to_string (JArr xs ps) =
     (if has_key ps ''toString'' then Inl (new_TypeError ''Cannot convert object to primitive value'')
      else if has_key ps ''join'' then Inr ''[object Array]''
      else join_commas (map (\<lambda>x. if x = JUndef \<or> x = JNull then Inr [] else to_string x) xs))"
| "to_string (JObj ps) =
     (if has_key ps ''toString'' then Inl (new_TypeError ''Cannot convert object to primitive value'')
      else Inr ''[object Object]'')"

section \<open>The transport: \<open>fetch\<close>, its responses and the timer\<close>

text \<open>
  The request handed to \<open>fetch\<close>. The URL is kept as the base with the query
  parameters appended to its \<open>searchParams\<close>; the credential is kept as the text that
  is base64-encoded behind \<open>Basic\<close>.
\<close>

datatype header_value = Plain string | Basic_base64 string

record request =
  req_url :: string
  req_search :: "(string \<times> string) list"
  req_method :: string
  req_headers :: "(string \<times> header_value) list"

text \<open>What \<open>await response.json()\<close> does: a value, a throw, or a body that never ends.\<close>

datatype body_result = Parsed jsval | ParseFails js_error | BodyStalls

record response =
  res_status :: nat
  res_text :: string
  res_json :: body_result

text \<open>\<open>response.ok\<close>, as the fetch \<open>Response\<close> class defines it.\<close>

definition res_ok :: "response \<Rightarrow> bool" where
  "res_ok r = (200 \<le> res_status r \<and> res_status r < 300)"

datatype fetch_result = Responds response | Throws js_error

text \<open>
  What the network does with one request: when the promise of \<open>fetch\<close> would settle
  (milliseconds after the call; \<open>None\<close> is never) and with what. A transport maps each
  request to that.
\<close>

record exchange =
  settles_at :: "nat option"
  settles_with :: fetch_result

type_synonym transport = "request \<Rightarrow> exchange"

text \<open>
  Everything a call does besides settling, in order: arming and disarming the timer,
  the outbound request, the abort of the controller when the timer fires, what is
  written to the console, each invocation of the caller's callback, and an error that
  nobody catches.
\<close>

datatype cb_call = CbResult jsval | CbError js_error

datatype event =
    SetTimeout nat
  | Fetch request
  | Abort
  | ClearTimeout
  | ConsoleLog string
  | Invoke cb_call
  | Uncaught js_error

text \<open>The error with which an aborted \<open>fetch\<close> rejects.\<close>

definition abort_error :: js_error where
  "abort_error = \<lparr>err_name = ''AbortError'', err_message = ''The operation was aborted.'',
                   err_code = None, err_status = None\<rparr>"

text \<open>
  \<open>await fetch(..., {signal})\<close> with the timer armed for \<open>ms\<close>: an exchange that settles
  before the timer fires gives its own result; otherwise the timer's callback aborts the
  controller and \<open>fetch\<close> rejects with the abort error.
\<close>

definition timer_fires_first :: "nat \<Rightarrow> exchange \<Rightarrow> bool" where
  "timer_fires_first ms x = (case settles_at x of None \<Rightarrow> True | Some t \<Rightarrow> ms \<le> t)"

definition await_fetch :: "nat \<Rightarrow> exchange \<Rightarrow> fetch_result \<times> event list" where
  "await_fetch ms x =
     (if timer_fires_first ms x then (Throws abort_error, [Abort]) else (settles_with x, []))"

section \<open>The client (the ES module)\<close>

definition API_BASE_URL :: string where
  "API_BASE_URL = ''https://api.mailgun.net/v3/address/validate''"

definition TIMEOUT_MS :: nat where
  "TIMEOUT_MS = 4000"

datatype 'a completion = Returned 'a | Threw js_error | Hangs

datatype outcome = Resolve jsval | Reject js_error | Pending

definition authHeader :: "string \<Rightarrow> header_value" where
  "authHeader apiKey = Basic_base64 (''api:'' @ apiKey)"

definition build_request :: "string \<Rightarrow> string \<Rightarrow> request" where
  "build_request apiKey email =
     \<lparr>req_url = API_BASE_URL,
      req_search = [(''address'', email)],
      req_method = ''GET'',
      req_headers = [(''Authorization'', authHeader apiKey), (''Accept'', Plain ''application/json'')]\<rparr>"

text \<open>
  The branch \<open>if (!response.ok)\<close>: the message starts as the generic one and is replaced
  by a truthy \<open>message\<close> of the parsed body; a body that does not parse, or whose
  \<open>message\<close> cannot be read, leaves it (the inner \<open>catch\<close> is empty).
\<close>

definition generic_message :: "nat \<Rightarrow> string" where
  "generic_message status = ''HTTP error! status: '' @ show_nat status"

definition errorMessage :: "response \<Rightarrow> jsval completion" where
  "errorMessage r =
     (case res_json r of
        BodyStalls \<Rightarrow> Hangs
      | ParseFails e \<Rightarrow> Returned (JStr (generic_message (res_status r)))
      | Parsed errorData \<Rightarrow>
          (case get_named errorData ''message'' of
             Inl e \<Rightarrow> Returned (JStr (generic_message (res_status r)))
           | Inr m \<Rightarrow> Returned (if truthy m then m else JStr (generic_message (res_status r)))))"

definition http_error :: "response \<Rightarrow> jsval completion" where
  "http_error r =
     (case errorMessage r of
        Hangs \<Rightarrow> Hangs
      | Threw e \<Rightarrow> Threw e
      | Returned m \<Rightarrow>
          (case to_string m of
             Inl e \<Rightarrow> Threw e
           | Inr msg \<Rightarrow>
               Threw ((new_Error msg)
                 \<lparr>err_status := Some (res_status r),
                  err_code := Some (if res_status r = 401 then ''EAUTH'' else ''EAPI'')\<rparr>)))"

text \<open>
  The success branch: \<open>result.is_valid = result.result === 'deliverable'\<close>, then
  \<open>return result\<close>.
\<close>

definition add_is_valid :: "jsval \<Rightarrow> jsval completion" where
  "add_is_valid result =
     (case get_named result ''result'' of
        Inl e \<Rightarrow> Threw e
      | Inr v \<Rightarrow>
          (case set_named result ''is_valid'' (JBool (v = JStr ''deliverable'')) of
             Inl e \<Rightarrow> Threw e
           | Inr result' \<Rightarrow> Returned result'))"

definition on_response :: "response \<Rightarrow> jsval completion" where
  "on_response r =
     (if \<not> res_ok r then http_error r
      else (case res_json r of
              BodyStalls \<Rightarrow> Hangs
            | ParseFails e \<Rightarrow> Threw e
            | Parsed result \<Rightarrow> add_is_valid result))"

text \<open>The body of \<open>try\<close>, from the settled \<open>fetch\<close> on.\<close>

definition try_block :: "fetch_result \<Rightarrow> jsval completion \<times> event list" where
  "try_block fr =
     (case fr of
        Throws e \<Rightarrow> (Threw e, [])
      | Responds r \<Rightarrow> (on_response r, [ClearTimeout]))"

text \<open>The \<open>catch\<close> clause: what it throws, after \<open>clearTimeout\<close>.\<close>

definition timeoutError :: js_error where
  "timeoutError = (new_Error ''Request timed out'')\<lparr>err_code := Some ''ETIMEDOUT''\<rparr>"

definition catch_block :: "js_error \<Rightarrow> js_error" where
  "catch_block error =
     (if err_name error = ''AbortError'' then timeoutError
      else if \<not> truthy_code (err_code error) then error\<lparr>err_code := Some ''EUNKNOWN''\<rparr>
      else error)"

definition validateEmail :: "string \<Rightarrow> transport \<Rightarrow> string \<Rightarrow> outcome \<times> event list" where
  "validateEmail apiKey net email =
     (let req = build_request apiKey email;
          (fr, ev1) = await_fetch TIMEOUT_MS (net req);
          (c, ev2) = try_block fr;
          evs = [SetTimeout TIMEOUT_MS, Fetch req] @ ev1 @ ev2
      in case c of
           Returned result \<Rightarrow> (Resolve result, evs)
         | Hangs \<Rightarrow> (Pending, evs)
         | Threw error \<Rightarrow> (Reject (catch_block error), evs @ [ClearTimeout]))"

text \<open>
  The second argument of \<open>validator\<close> is any value; a function is what it does when
  called (\<open>None\<close>: it returns, \<open>Some e\<close>: it throws \<open>e\<close>).
\<close>

type_synonym callback = "cb_call \<Rightarrow> js_error option"

datatype cb_arg = NotFunction jsval | Function callback

datatype returned = ReturnsPromise outcome | ReturnsUndefined

text \<open>
  \<open>p.then(result => callback(null, result)).catch(callback)\<close>: the handler of \<open>catch\<close>
  also receives what the handler of \<open>then\<close> throws, and what it throws itself is a
  rejection without a handler.
\<close>

definition catch_callback :: "callback \<Rightarrow> js_error \<Rightarrow> event list" where
  "catch_callback callback e =
     Invoke (CbError e) # (case callback (CbError e) of None \<Rightarrow> [] | Some e' \<Rightarrow> [Uncaught e'])"

definition then_catch :: "callback \<Rightarrow> outcome \<Rightarrow> event list" where
  "then_catch callback p =
     (case p of
        Pending \<Rightarrow> []
      | Resolve result \<Rightarrow>
          Invoke (CbResult result) #
            (case callback (CbResult result) of None \<Rightarrow> [] | Some e \<Rightarrow> catch_callback callback e)
      | Reject e \<Rightarrow> catch_callback callback e)"

definition validator :: "string \<Rightarrow> transport \<Rightarrow> string \<Rightarrow> cb_arg \<Rightarrow> returned \<times> event list" where
  "validator apiKey net email cb =
     (let (p, evs) = validateEmail apiKey net email
      in case cb of
           NotFunction v \<Rightarrow> (ReturnsPromise p, evs)
         | Function callback \<Rightarrow> (ReturnsUndefined, evs @ then_catch callback p))"

text \<open>
  \<open>createValidator(apiKey)\<close> has one parameter; a call may pass more arguments, which
  JavaScript drops. The options object of the documentation is that second argument.
\<close>

record options =
  opt_timeout :: "nat option"
  opt_providerLookup :: "bool option"

definition createValidator ::
    "string \<Rightarrow> options option \<Rightarrow> transport \<Rightarrow> string \<Rightarrow> cb_arg \<Rightarrow> returned \<times> event list" where
  "createValidator apiKey opts = validator apiKey"

text \<open>What a run did to the callback, and what it did besides.\<close>

fun delivered :: "event list \<Rightarrow> cb_call list" where
  "delivered [] = []"
| "delivered (Invoke c # evs) = c # delivered evs"
| "delivered (ev # evs) = delivered evs"

fun about_callback :: "event \<Rightarrow> bool" where
  "about_callback (Invoke c) = True"
| "about_callback (Uncaught e) = True"
| "about_callback ev = False"

definition network :: "event list \<Rightarrow> event list" where
  "network evs = filter (\<lambda>ev. \<not> about_callback ev) evs"

fun is_object :: "jsval \<Rightarrow> bool" where
  "is_object (JObj ps) = True"
| "is_object (JArr xs ps) = True"
| "is_object v = False"

section \<open>The legacy client (the CommonJS module)\<close>

text \<open>
  The path of the legacy \<open>validator\<close> that is taken with a callback: the options given
  to \<open>request\<close> and the handler that \<open>request\<close> calls on completion, with either an
  error or the response, of which the handler reads \<open>res.request.response.body\<close>.
  \<open>JSON.parse\<close> is a parameter. The branch for \<open>cb === undefined\<close> is not part of
  this model.
\<close>

record legacy_options =
  lo_url :: string
  lo_method :: string
  lo_timeout :: nat
  lo_qs :: "(string \<times> string) list"
  lo_auth :: "string \<times> string"

datatype request_result = RequestError js_error | RequestDone string

definition legacy_request_options :: "string \<Rightarrow> string \<Rightarrow> legacy_options" where
  "legacy_request_options apiKey email =
     \<lparr>lo_url = ''https://api.mailgun.net/v2/address/validate'',
      lo_method = ''GET'',
      lo_timeout = 4000,
      lo_qs = [(''address'', email)],
      lo_auth = (''api'', apiKey)\<rparr>"

definition legacy_cb_err :: "callback \<Rightarrow> js_error \<Rightarrow> event list" where
  "legacy_cb_err cb err =
     Invoke (CbError err) # (case cb (CbError err) of None \<Rightarrow> [] | Some e \<Rightarrow> [Uncaught e])"

definition legacy_on_complete ::
    "(string \<Rightarrow> js_error + jsval) \<Rightarrow> callback \<Rightarrow> request_result \<Rightarrow> event list" where
  "legacy_on_complete parse cb rr =
     (case rr of
        RequestError err \<Rightarrow> legacy_cb_err cb err
      | RequestDone body \<Rightarrow>
          (case parse body of
             Inl err \<Rightarrow>
               ConsoleLog (''Unable to Parse MailGun Response: '' @ body) # legacy_cb_err cb err
           | Inr result \<Rightarrow>
               Invoke (CbResult result) #
                 (case cb (CbResult result) of
                    None \<Rightarrow> []
                  | Some err \<Rightarrow>
                      ConsoleLog (''Unable to Parse MailGun Response: '' @ body) #
                        legacy_cb_err cb err)))"

definition legacy_validator ::
    "string \<Rightarrow> (legacy_options \<Rightarrow> request_result) \<Rightarrow> (string \<Rightarrow> js_error + jsval) \<Rightarrow>
     string \<Rightarrow> callback \<Rightarrow> event list" where
  "legacy_validator apiKey request parse email cb =
     legacy_on_complete parse cb (request (legacy_request_options apiKey email))"

section \<open>Concrete transports, bodies and callbacks\<close>

definition answers :: "nat \<Rightarrow> response \<Rightarrow> transport" where
  "answers t r = (\<lambda>req. \<lparr>settles_at = Some t, settles_with = Responds r\<rparr>)"

definition fails_with :: "nat \<Rightarrow> js_error \<Rightarrow> transport" where
  "fails_with t e = (\<lambda>req. \<lparr>settles_at = Some t, settles_with = Throws e\<rparr>)"

definition silent :: transport where
  "silent = (\<lambda>req. \<lparr>settles_at = None, settles_with = Throws (new_Error ''unreachable'')\<rparr>)"

definition json_response :: "nat \<Rightarrow> string \<Rightarrow> jsval \<Rightarrow> response" where
  "json_response status text v = \<lparr>res_status = status, res_text = text, res_json = Parsed v\<rparr>"

definition deliverable_body :: jsval where
  "deliverable_body =
     JObj [(''address'', JStr ''banana@papaia.com''), (''is_valid'', JBool False),
           (''result'', JStr ''deliverable''), (''risk'', JStr ''low''), (''reason'', JArr [] [])]"

definition undeliverable_body :: jsval where
  "undeliverable_body =
     JObj [(''address'', JStr ''invalid-email-format''), (''result'', JStr ''undeliverable''),
           (''risk'', JStr ''high''), (''reason'', JArr [JStr ''no_mx_record''] [])]"

definition forbidden_response :: response where
  "forbidden_response =
     json_response 403 ''{\"message\":\"Forbidden\"}'' (JObj [(''message'', JStr ''Forbidden'')])"

definition server_error_response :: response where
  "server_error_response =
     json_response 500 ''{\"message\":\"Internal server error\"}''
       (JObj [(''message'', JStr ''Internal server error'')])"

definition unprintable_message_response :: response where
  "unprintable_message_response =
     json_response 500 ''{\"message\":{\"toString\":1}}''
       (JObj [(''message'', JObj [(''toString'', JNum ''1'')])])"

definition stalled_error_response :: response where
  "stalled_error_response = \<lparr>res_status = 500, res_text = [], res_json = BodyStalls\<rparr>"

definition network_error :: js_error where
  "network_error = new_Error ''Network error''"


definition quiet_callback :: callback where
  "quiet_callback = (\<lambda>c. None)"

definition throwing_callback :: callback where
  "throwing_callback =
     (\<lambda>c. case c of CbResult r \<Rightarrow> Some (new_TypeError ''boom'') | CbError e \<Rightarrow> None)"

definition fast_options :: options where
  "fast_options = \<lparr>opt_timeout = Some 1, opt_providerLookup = Some True\<rparr>"

section \<open>Auxiliary facts\<close>

lemmas client_defs = validateEmail_def await_fetch_def try_block_def on_response_def http_error_def
  errorMessage_def add_is_valid_def catch_block_def timer_fires_first_def res_ok_def
  generic_message_def new_Error_def new_TypeError_def timeoutError_def abort_error_def
  TIMEOUT_MS_def truthy_code_def Let_def

lemmas input_defs = answers_def fails_with_def silent_def json_response_def deliverable_body_def
  undeliverable_body_def forbidden_response_def server_error_response_def
  unprintable_message_response_def stalled_error_response_def network_error_def quiet_callback_def
  throwing_callback_def fast_options_def

lemma lookup_put_same: "lookup_prop (put_prop ps k x) k = x"
  by (induction ps) auto

lemma lookup_put_other: "k' \<noteq> k \<Longrightarrow> lookup_prop (put_prop ps k x) k' = lookup_prop ps k'"
  by (induction ps) auto

lemma add_is_valid_object:
  assumes "is_object v"
  shows "\<exists>v'. add_is_valid v = Returned v' \<and> is_object v'
           \<and> get_named v' ''is_valid'' = Inr (JBool (get_named v ''result'' = Inr (JStr ''deliverable'')))
           \<and> (\<forall>k. k \<noteq> ''is_valid'' \<longrightarrow> get_named v' k = get_named v k)"
  using assms by (cases v) (simp_all add: add_is_valid_def lookup_put_same lookup_put_other)

text \<open>The three ways a call can go, by what the network does before the timer fires.\<close>

lemma validateEmail_in_time:
  assumes "\<not> timer_fires_first TIMEOUT_MS (net (build_request apiKey email))"
      and "settles_with (net (build_request apiKey email)) = Responds r"
  shows "validateEmail apiKey net email =
     (case on_response r of
        Returned result \<Rightarrow>
          (Resolve result, [SetTimeout TIMEOUT_MS, Fetch (build_request apiKey email), ClearTimeout])
      | Hangs \<Rightarrow> (Pending, [SetTimeout TIMEOUT_MS, Fetch (build_request apiKey email), ClearTimeout])
      | Threw error \<Rightarrow>
          (Reject (catch_block error),
           [SetTimeout TIMEOUT_MS, Fetch (build_request apiKey email), ClearTimeout, ClearTimeout]))"
  using assms
  by (simp add: validateEmail_def await_fetch_def try_block_def Let_def split: completion.splits)


lemma validateEmail_timeout:
  assumes "timer_fires_first TIMEOUT_MS (net (build_request apiKey email))"
  shows "validateEmail apiKey net email =
     (Reject timeoutError,
      [SetTimeout TIMEOUT_MS, Fetch (build_request apiKey email), Abort, ClearTimeout])"
  using assms
  by (simp add: validateEmail_def await_fetch_def try_block_def Let_def catch_block_def abort_error_def)

text \<open>\<open>validateEmail\<close> itself never touches a callback.\<close>

lemma delivered_append: "delivered (xs @ ys) = delivered xs @ delivered ys"
  by (induction xs rule: delivered.induct) simp_all

lemma network_append: "network (xs @ ys) = network xs @ network ys"
  by (simp add: network_def)

lemma validateEmail_no_callback:
  "delivered (snd (validateEmail apiKey net email)) = []"
  "network (snd (validateEmail apiKey net email)) = snd (validateEmail apiKey net email)"
  by (auto simp add: validateEmail_def await_fetch_def try_block_def Let_def network_def
       split: completion.splits fetch_result.splits prod.splits if_splits)

lemma then_catch_network: "network (then_catch cb p) = []"
  by (auto simp add: then_catch_def catch_callback_def network_def
       split: outcome.splits option.splits)

text \<open>A callback that returns normally is invoked once per settled call, and only then.\<close>

lemma returning_callback_once:
  assumes "\<forall>c. cb c = None"
  shows "then_catch cb p =
     (case p of Resolve r \<Rightarrow> [Invoke (CbResult r)] | Reject e \<Rightarrow> [Invoke (CbError e)] | Pending \<Rightarrow> [])"
  using assms by (cases p) (simp_all add: then_catch_def catch_callback_def)

text \<open>The client never writes to the console.\<close>

lemma validateEmail_never_logs: "ConsoleLog text \<notin> set (snd (validateEmail apiKey net email))"
  by (auto simp add: validateEmail_def await_fetch_def try_block_def Let_def
       split: completion.splits fetch_result.splits prod.splits if_splits)

text \<open>
  A truthy \<open>message\<close> that is not a string is printed by \<open>new Error\<close>; the
  classification of the error is the same.
\<close>

lemma http_error_printed_message:
  assumes "\<not> res_ok r" and "res_json r = Parsed body"
      and "get_named body ''message'' = Inr m" and "truthy m" and "to_string m = Inr msg"
  shows "on_response r =
     Threw \<lparr>err_name = ''Error'', err_message = msg,
             err_code = Some (if res_status r = 401 then ''EAUTH'' else ''EAPI''),
             err_status = Some (res_status r)\<rparr>"
  using assms by (simp add: on_response_def http_error_def errorMessage_def new_Error_def)

text \<open>The legacy handler writes the body it could not parse to the console.\<close>

lemma legacy_logs_raw_body:
  "parse body = Inl err \<Longrightarrow>
   legacy_validator apiKey (\<lambda>opts. RequestDone body) parse email quiet_callback =
     [ConsoleLog (''Unable to Parse MailGun Response: '' @ body), Invoke (CbError err)]"
  by (simp add: legacy_validator_def legacy_on_complete_def legacy_cb_err_def quiet_callback_def)

text \<open>Whatever options are passed, the validator is the one built from the key alone.\<close>

lemma createValidator_drops_options: "createValidator apiKey opts = createValidator apiKey None"
  by (simp add: createValidator_def)

text \<open>
  With or without a callback the same request is built and the same timer is armed,
  cleared and fired. The callback's first invocation is \<open>(null, r)\<close> exactly when the
  promise resolves with \<open>r\<close> and \<open>(e)\<close> exactly when it rejects with \<open>e\<close>, and there
  is none exactly when the promise stays pending; a callback that returns normally is
  not invoked again.
\<close>

lemma first_invocation_mirrors_promise:
  "\<exists>p evs calls.
      validator apiKey net email (NotFunction u) = (ReturnsPromise p, evs)
    \<and> validator apiKey net email (Function cb) = (ReturnsUndefined, evs @ calls)
    \<and> network (evs @ calls) = evs
    \<and> delivered (evs @ calls) = delivered calls
    \<and> (\<forall>r. (p = Resolve r) = (take 1 (delivered calls) = [CbResult r]))
    \<and> (\<forall>e. (p = Reject e) = (take 1 (delivered calls) = [CbError e]))
    \<and> ((p = Pending) = (delivered calls = []))
    \<and> ((\<forall>c. cb c = None) \<longrightarrow> length (delivered calls) \<le> 1)"
proof -
  obtain p evs where ve: "validateEmail apiKey net email = (p, evs)"
    by (cases "validateEmail apiKey net email")
  have nc: "delivered evs = []" "network evs = evs"
    using validateEmail_no_callback[of apiKey net email] ve by simp_all
  let ?calls = "then_catch cb p"
  have 1: "validator apiKey net email (NotFunction u) = (ReturnsPromise p, evs)"
    by (simp add: validator_def ve)
  have 2: "validator apiKey net email (Function cb) = (ReturnsUndefined, evs @ ?calls)"
    by (simp add: validator_def ve)
  have 3: "network (evs @ ?calls) = evs"
    by (simp add: network_append nc then_catch_network)
  have 4: "delivered (evs @ ?calls) = delivered ?calls"
    by (simp add: delivered_append nc)
  have 5: "\<forall>r. (p = Resolve r) = (take 1 (delivered ?calls) = [CbResult r])"
    by (cases p) (auto simp add: then_catch_def catch_callback_def)
  have 6: "\<forall>e. (p = Reject e) = (take 1 (delivered ?calls) = [CbError e])"
    by (cases p) (auto simp add: then_catch_def catch_callback_def)
  have 7: "(p = Pending) = (delivered ?calls = [])"
    by (cases p) (auto simp add: then_catch_def catch_callback_def)
  have 8: "(\<forall>c. cb c = None) \<longrightarrow> length (delivered ?calls) \<le> 1"
    by (cases p) (auto simp add: then_catch_def catch_callback_def)
  from 1 2 3 4 5 6 7 8 show ?thesis by blast
qed

text \<open>
  A response outside 200..299 whose body does not parse, or parses to a value whose
  \<open>message\<close> is a non-empty string, falsy or unreadable, rejects with an \<open>Error\<close> that
  carries the status, the code \<open>EAUTH\<close> for 401 and \<open>EAPI\<close> otherwise, and the body's
  message or else the generic one.
\<close>

lemma http_error_ordinary_body:
  assumes "\<not> timer_fires_first TIMEOUT_MS (net (build_request apiKey email))"
      and "settles_with (net (build_request apiKey email)) = Responds r"
      and "\<not> res_ok r"
  shows "(\<forall>body m. res_json r = Parsed body \<and> get_named body ''message'' = Inr (JStr m) \<and> m \<noteq> []
            \<longrightarrow> fst (validateEmail apiKey net email) =
                  Reject \<lparr>err_name = ''Error'', err_message = m,
                          err_code = Some (if res_status r = 401 then ''EAUTH'' else ''EAPI''),
                          err_status = Some (res_status r)\<rparr>)
       \<and> (\<forall>body m pe te. (res_json r = ParseFails pe
              \<or> res_json r = Parsed body \<and> get_named body ''message'' = Inr m \<and> \<not> truthy m
              \<or> res_json r = Parsed body \<and> get_named body ''message'' = Inl te)
            \<longrightarrow> fst (validateEmail apiKey net email) =
                  Reject \<lparr>err_name = ''Error'',
                          err_message = ''HTTP error! status: '' @ show_nat (res_status r),
                          err_code = Some (if res_status r = 401 then ''EAUTH'' else ''EAPI''),
                          err_status = Some (res_status r)\<rparr>)"
proof -
  have ve: "fst (validateEmail apiKey net email) =
      (case on_response r of
         Returned x \<Rightarrow> Resolve x | Hangs \<Rightarrow> Pending | Threw e \<Rightarrow> Reject (catch_block e))"
    using validateEmail_in_time[where net=net and apiKey=apiKey and email=email, OF assms(1,2)]
    by (simp split: completion.splits)
  show ?thesis
    using assms(3)
    by (auto simp add: ve on_response_def http_error_def errorMessage_def generic_message_def
          catch_block_def new_Error_def truthy_code_def)
qed

text \<open>
  After the headers the timer is cleared, so a body that never ends leaves the call
  pending, whatever the status.
\<close>

lemma stalled_body_never_settles:
  "validateEmail ''key'' (answers 80 stalled_error_response) ''test@example.com'' =
     (Pending, [SetTimeout 4000, Fetch (build_request ''key'' ''test@example.com''), ClearTimeout])"
  by (simp add: client_defs input_defs)

section \<open>The claims\<close>

text \<open>
  Claim C1. A 2xx response that arrives before the timer fires and whose body parses to
  an object (or an array) resolves the promise, and reaches the callback, with that value
  plus \<open>is_valid\<close>, which is the boolean \<open>result === 'deliverable'\<close> of the body,
  whatever \<open>is_valid\<close> the body had; every other property is the body's.
\<close>

theorem is_valid_attached:
  assumes "\<not> timer_fires_first TIMEOUT_MS (net (build_request apiKey email))"
      and "settles_with (net (build_request apiKey email)) = Responds r"
      and "res_ok r"
      and "res_json r = Parsed body"
      and "is_object body"
  shows "\<exists>result. fst (validateEmail apiKey net email) = Resolve result
           \<and> fst (validator apiKey net email (NotFunction u)) = ReturnsPromise (Resolve result)
           \<and> delivered (snd (validator apiKey net email (Function cb))) \<noteq> []
           \<and> hd (delivered (snd (validator apiKey net email (Function cb)))) = CbResult result
           \<and> get_named result ''is_valid'' =
               Inr (JBool (get_named body ''result'' = Inr (JStr ''deliverable'')))
           \<and> (\<forall>k. k \<noteq> ''is_valid'' \<longrightarrow> get_named result k = get_named body k)"
proof -
  obtain v' where v': "add_is_valid body = Returned v'"
    "get_named v' ''is_valid'' = Inr (JBool (get_named body ''result'' = Inr (JStr ''deliverable'')))"
    "\<forall>k. k \<noteq> ''is_valid'' \<longrightarrow> get_named v' k = get_named body k"
    using add_is_valid_object[OF assms(5)] by blast
  have onr: "on_response r = Returned v'"
    using assms(3,4) v'(1) by (simp add: on_response_def)
  have ve: "validateEmail apiKey net email =
      (Resolve v', [SetTimeout TIMEOUT_MS, Fetch (build_request apiKey email), ClearTimeout])"
    using validateEmail_in_time[where net=net and apiKey=apiKey and email=email, OF assms(1,2)] onr
    by simp
  show ?thesis
    using ve v'(2,3)
    by (auto simp add: validator_def then_catch_def intro!: exI[of _ v'])
qed

theorem is_valid_attached_witness:
  "\<not> timer_fires_first TIMEOUT_MS
        (answers 120 (json_response 200 [] deliverable_body) (build_request ''key'' ''banana@papaia.com''))
   \<and> res_ok (json_response 200 [] deliverable_body) \<and> is_object deliverable_body
   \<and> get_named deliverable_body ''is_valid'' = Inr (JBool False)
   \<and> (\<exists>result. fst (validateEmail ''key'' (answers 120 (json_response 200 [] deliverable_body))
                       ''banana@papaia.com'') = Resolve result
         \<and> get_named result ''is_valid'' = Inr (JBool True)
         \<and> get_named result ''result'' = Inr (JStr ''deliverable''))"
proof -
  let ?r = "json_response 200 [] deliverable_body"
  let ?net = "answers 120 ?r"
  have h1: "\<not> timer_fires_first TIMEOUT_MS (?net (build_request ''key'' ''banana@papaia.com''))"
    by (simp add: timer_fires_first_def answers_def TIMEOUT_MS_def)
  have h2: "settles_with (?net (build_request ''key'' ''banana@papaia.com'')) = Responds ?r"
    by (simp add: answers_def)
  have h3: "res_ok ?r" by (simp add: res_ok_def json_response_def)
  have h4: "res_json ?r = Parsed deliverable_body" by (simp add: json_response_def)
  have h5: "is_object deliverable_body" by (simp add: deliverable_body_def)
  have g: "get_named deliverable_body ''result'' = Inr (JStr ''deliverable'')"
          "get_named deliverable_body ''is_valid'' = Inr (JBool False)"
    by (simp_all add: deliverable_body_def)
  from is_valid_attached[where net="?net" and apiKey="''key''" and email="''banana@papaia.com''"
          and u=JUndef and cb=quiet_callback, OF h1 h2 h3 h4 h5]
  obtain result where
    "fst (validateEmail ''key'' ?net ''banana@papaia.com'') = Resolve result"
    "get_named result ''is_valid'' =
       Inr (JBool (get_named deliverable_body ''result'' = Inr (JStr ''deliverable'')))"
    "\<forall>k. k \<noteq> ''is_valid'' \<longrightarrow> get_named result k = get_named deliverable_body k"
    by blast
  then have "fst (validateEmail ''key'' ?net ''banana@papaia.com'') = Resolve result
         \<and> get_named result ''is_valid'' = Inr (JBool True)
         \<and> get_named result ''result'' = Inr (JStr ''deliverable'')"
    using g by simp
  then show ?thesis using h1 h3 h5 g(2) by blast
qed

text \<open>
  Claim C2 says that the callback receives an error exactly when the promise would
  reject with it. Here the service answers \<open>deliverable\<close> and the callback throws when
  it is called with the result: without a callback the promise resolves with the result,
  while the callback receives the result and then, through the handler of \<open>catch\<close>, an
  error with which the promise never rejects.
\<close>

theorem throwing_callback_breaks_agreement:
  "fst (validator ''key'' (answers 120 (json_response 200 [] deliverable_body)) ''banana@papaia.com''
          (NotFunction JUndef)) =
     ReturnsPromise (Resolve (JObj [(''address'', JStr ''banana@papaia.com''),
        (''is_valid'', JBool True), (''result'', JStr ''deliverable''), (''risk'', JStr ''low''),
        (''reason'', JArr [] [])]))
   \<and> delivered (snd (validator ''key'' (answers 120 (json_response 200 [] deliverable_body))
          ''banana@papaia.com'' (Function throwing_callback))) =
     [CbResult (JObj [(''address'', JStr ''banana@papaia.com''),
        (''is_valid'', JBool True), (''result'', JStr ''deliverable''), (''risk'', JStr ''low''),
        (''reason'', JArr [] [])]),
      CbError (new_TypeError ''boom'')]"
  by (simp add: validator_def then_catch_def catch_callback_def client_defs input_defs)

text \<open>
  Claim C3 says that every response outside 200..299 fails with code \<open>EAUTH\<close> or
  \<open>EAPI\<close> and carries the status. Here the service answers 500 with a body whose
  \<open>message\<close> is an object that shadows \<open>toString\<close>: \<open>new Error(errorMessage)\<close>, which
  is outside the inner \<open>try\<close>, throws a \<open>TypeError\<close>, and the call rejects with that
  error, code \<open>EUNKNOWN\<close> and no status.
\<close>

theorem unprintable_message_is_unclassified:
  "validateEmail ''key'' (answers 80 unprintable_message_response) ''test@example.com'' =
     (Reject \<lparr>err_name = ''TypeError'', err_message = ''Cannot convert object to primitive value'',
              err_code = Some ''EUNKNOWN'', err_status = None\<rparr>,
      [SetTimeout 4000, Fetch (build_request ''key'' ''test@example.com''), ClearTimeout, ClearTimeout])"
  by (simp add: has_key_def client_defs input_defs)





text \<open>
  Claim C6 says that a supplied callback is invoked exactly once, also when it throws.
  Here the service answers \<open>deliverable\<close> and the callback throws when it is called
  with the result: the handler of \<open>catch\<close>, which is the callback again, receives what
  it threw, so the callback is invoked twice, first with \<open>(null, result)\<close> and then with
  its own error.
\<close>

theorem throwing_callback_invoked_twice:
  "validator ''key'' (answers 120 (json_response 200 [] deliverable_body)) ''banana@papaia.com''
     (Function throwing_callback) =
   (ReturnsUndefined,
    [SetTimeout 4000, Fetch (build_request ''key'' ''banana@papaia.com''), ClearTimeout,
     Invoke (CbResult (JObj [(''address'', JStr ''banana@papaia.com''), (''is_valid'', JBool True),
           (''result'', JStr ''deliverable''), (''risk'', JStr ''low''), (''reason'', JArr [] [])])),
     Invoke (CbError (new_TypeError ''boom''))])"
  by (simp add: validator_def then_catch_def catch_callback_def client_defs input_defs)

text \<open>
  Claim C7 says that an invalid key fails with code \<open>EAUTH\<close> whether the status is 401
  or 403. Here the service answers the invalid key with 403: the error carries status
  403 and code \<open>EAPI\<close>, since only 401 is mapped to \<open>EAUTH\<close>.
\<close>

theorem forbidden_is_classified_eapi:
  "fst (validateEmail ''invalid-api-key'' (answers 80 forbidden_response) ''test@example.com'') =
     Reject \<lparr>err_name = ''Error'', err_message = ''Forbidden'', err_code = Some ''EAPI'',
             err_status = Some 403\<rparr>"
  by (simp add: client_defs input_defs)

text \<open>
  Claim C8 says that \<open>createValidator\<close> takes options, of which \<open>timeout\<close> replaces the
  default wait. Here the options ask for 1 ms and a provider lookup, and the service
  answers after 100 ms: the timer is armed for 4000 ms, the request carries the address
  alone, and the call resolves instead of timing out.
\<close>

theorem options_have_no_effect:
  "createValidator ''key'' (Some fast_options) (answers 100 (json_response 200 [] undeliverable_body))
      ''test@example.com'' (NotFunction JUndef) =
   (ReturnsPromise (Resolve (JObj [(''address'', JStr ''invalid-email-format''),
       (''result'', JStr ''undeliverable''), (''risk'', JStr ''high''),
       (''reason'', JArr [JStr ''no_mx_record''] []), (''is_valid'', JBool False)])),
    [SetTimeout 4000,
     Fetch \<lparr>req_url = ''https://api.mailgun.net/v3/address/validate'',
            req_search = [(''address'', ''test@example.com'')],
            req_method = ''GET'',
            req_headers = [(''Authorization'', Basic_base64 ''api:key''),
                           (''Accept'', Plain ''application/json'')]\<rparr>,
     ClearTimeout])"
  by (simp add: createValidator_def validator_def build_request_def authHeader_def API_BASE_URL_def
        client_defs input_defs)

text \<open>
  Claim C9 says that a 2xx body that does not parse fails with a coded error that
  refers to the raw body, logged or attached. Here a 200 response arrives after 50 ms
  with any text as its body and \<open>response.json()\<close> throws any error: the call rejects
  with that very error, to which only the code \<open>EUNKNOWN\<close> is added when it has none
  (an error named \<open>AbortError\<close> is replaced by the timeout error); the timer is cleared
  twice and nothing else happens: nothing is written to the console and nothing is
  attached to the error.
\<close>

theorem unparsable_body_rethrown_unlogged:
  "validateEmail apiKey (answers 50 \<lparr>res_status = 200, res_text = text, res_json = ParseFails pe\<rparr>)
     email =
     (Reject (if err_name pe = ''AbortError''
              then \<lparr>err_name = ''Error'', err_message = ''Request timed out'',
                    err_code = Some ''ETIMEDOUT'', err_status = None\<rparr>
              else if truthy_code (err_code pe) then pe
              else pe\<lparr>err_code := Some ''EUNKNOWN''\<rparr>),
      [SetTimeout 4000, Fetch (build_request apiKey email), ClearTimeout, ClearTimeout])"
  by (simp add: client_defs answers_def)

text \<open>
  Claim C10. A second argument that is not a function makes \<open>validator\<close> do what it does
  without a second argument: it returns the promise of \<open>validateEmail\<close>, with the same
  effects, and nothing is invoked as a callback.
\<close>

theorem non_function_callback_ignored:
  "validator apiKey net email (NotFunction v) = validator apiKey net email (NotFunction JUndef)
 \<and> validator apiKey net email (NotFunction v) =
      (ReturnsPromise (fst (validateEmail apiKey net email)), snd (validateEmail apiKey net email))
 \<and> delivered (snd (validator apiKey net email (NotFunction v))) = []"
  using validateEmail_no_callback(1)[of apiKey net email]
  by (cases "validateEmail apiKey net email") (simp add: validator_def)

theorem non_function_callback_ignored_witness:
  "validator ''key'' silent ''test@example.com'' (NotFunction (JStr ''callback'')) =
     validator ''key'' silent ''test@example.com'' (NotFunction JUndef)
   \<and> delivered (snd (validator ''key'' silent ''test@example.com'' (NotFunction (JStr ''callback'')))) = []"
  using non_function_callback_ignored[of "''key''" silent "''test@example.com''" "JStr ''callback''"]
  by blast

end
